theory Spec2Isabelle
  imports Main "HOL-Library.Word"
begin

section \<open>The directory library and the network, as the client uses them\<close>

text \<open>
  The client of \<^verbatim>\<open>src/unnamed/part_000\<close> talks to a directory server through the
  go-ldap library. The library and the server are not part of the repository: they are
  a parameter of the model (the record \<open>env\<close> below), and every theorem holds for every
  such environment. A Go \<^verbatim>\<open>error\<close> is identified with the text its \<^verbatim>\<open>Error()\<close>
  method returns, which is all the client ever inspects; \<open>None\<close> is \<^verbatim>\<open>nil\<close>.
\<close>

type_synonym error = string

text \<open>A live \<^verbatim>\<open>*ldap.Conn\<close>, by an opaque handle.\<close>

type_synonym conn = nat

type_synonym certificate = "nat list"

record EntryAttribute =
  Name :: string
  Values :: "string list"

record Entry =
  DN :: string
  Entry_Attributes :: "EntryAttribute list"

record SearchRequest =
  BaseDN :: string
  Scope :: int
  DerefAliases :: int
  SizeLimit :: int
  TimeLimit :: int
  TypesOnly :: bool
  Filter :: string
  Request_Attributes :: "string list"

definition ScopeWholeSubtree :: int where
  "ScopeWholeSubtree = 2"

definition NeverDerefAliases :: int where
  "NeverDerefAliases = 0"

definition NewSearchRequest ::
  "string \<Rightarrow> int \<Rightarrow> int \<Rightarrow> int \<Rightarrow> int \<Rightarrow> bool \<Rightarrow> string \<Rightarrow> string list \<Rightarrow> SearchRequest" where
  "NewSearchRequest base scope deref sizeLimit timeLimit typesOnly fltr attributes =
     \<lparr>BaseDN = base, Scope = scope, DerefAliases = deref, SizeLimit = sizeLimit,
      TimeLimit = timeLimit, TypesOnly = typesOnly, Filter = fltr,
      Request_Attributes = attributes\<rparr>"

record tls_Config =
  tls_InsecureSkipVerify :: bool
  ServerName :: string
  RootCAs :: "nat list option"
  Certificates :: "certificate list"

text \<open>
  The environment over a state \<open>'w\<close> of the outside world (servers, sockets). Each
  network primitive reads and changes that state. \<open>Conn_Search\<close> gives the error or the
  entries: go-ldap returns a result that is not nil whenever the error is nil.
  \<open>Sprintf\<close> is \<^verbatim>\<open>fmt.Sprintf\<close> with one argument.
\<close>

record 'w env =
  Dial :: "string \<Rightarrow> 'w \<Rightarrow> (error + conn) \<times> 'w"
  DialTLS :: "string \<Rightarrow> tls_Config \<Rightarrow> 'w \<Rightarrow> (error + conn) \<times> 'w"
  AppendCertsFromPEM :: "nat list \<Rightarrow> bool"
  Conn_Bind :: "conn \<Rightarrow> string \<Rightarrow> string \<Rightarrow> 'w \<Rightarrow> error option \<times> 'w"
  Conn_Search :: "conn \<Rightarrow> SearchRequest \<Rightarrow> 'w \<Rightarrow> (error + Entry list) \<times> 'w"
  Conn_Close :: "conn \<Rightarrow> 'w \<Rightarrow> 'w"
  Sprintf :: "string \<Rightarrow> string \<Rightarrow> string"

text \<open>
  Every network operation is logged with its arguments (a bind also with its answer),
  so that "no network operation", "no search" and "one reconnect" are statements
  about the log.
\<close>

datatype event =
  EvDial string
  | EvDialTLS string tls_Config
  | EvBind conn string string "error option"
  | EvSearch conn SearchRequest
  | EvClose conn

record 'w net =
  remote :: 'w
  trace :: "event list"

definition net_bind :: "'w env \<Rightarrow> conn \<Rightarrow> string \<Rightarrow> string \<Rightarrow> 'w net \<Rightarrow> error option \<times> 'w net" where
  "net_bind env h dn pw n =
     (case Conn_Bind env h dn pw (remote n) of
        (r, w) \<Rightarrow> (r, \<lparr>remote = w, trace = trace n @ [EvBind h dn pw r]\<rparr>))"

definition net_search ::
  "'w env \<Rightarrow> conn \<Rightarrow> SearchRequest \<Rightarrow> 'w net \<Rightarrow> (error + Entry list) \<times> 'w net" where
  "net_search env h req n =
     (case Conn_Search env h req (remote n) of
        (r, w) \<Rightarrow> (r, \<lparr>remote = w, trace = trace n @ [EvSearch h req]\<rparr>))"

definition net_close :: "'w env \<Rightarrow> conn \<Rightarrow> 'w net \<Rightarrow> 'w net" where
  "net_close env h n = \<lparr>remote = Conn_Close env h (remote n), trace = trace n @ [EvClose h]\<rparr>"

definition net_dial :: "'w env \<Rightarrow> string \<Rightarrow> 'w net \<Rightarrow> (error + conn) \<times> 'w net" where
  "net_dial env address n =
     (case Dial env address (remote n) of
        (r, w) \<Rightarrow> (r, \<lparr>remote = w, trace = trace n @ [EvDial address]\<rparr>))"

definition net_dial_tls ::
  "'w env \<Rightarrow> string \<Rightarrow> tls_Config \<Rightarrow> 'w net \<Rightarrow> (error + conn) \<times> 'w net" where
  "net_dial_tls env address tlsConfig n =
     (case DialTLS env address tlsConfig (remote n) of
        (r, w) \<Rightarrow> (r, \<lparr>remote = w, trace = trace n @ [EvDialTLS address tlsConfig]\<rparr>))"

section \<open>The client\<close>

record Config =
  Attributes :: "string list"
  Base :: string
  BindDN :: string
  BindPassword :: string
  GroupFilter :: string
  Host :: string
  UserFilter :: string
  Port :: int
  InsecureSkipVerify :: bool
  UseSSL :: bool
  ClientCertificates :: "certificate list"
  CACertificates :: "nat list"

text \<open>
  \<^verbatim>\<open>Conn\<close> is an interface value and \<^verbatim>\<open>Config\<close> a pointer: both can be nil
  (\<open>None\<close>). \<^verbatim>\<open>disconnects\<close> is a Go \<^verbatim>\<open>int\<close>, 64 bits wide with wrap-around.
\<close>

record Client =
  Conn :: "conn option"
  Config :: "Config option"
  disconnects :: "64 word"

text \<open>\<^verbatim>\<open>&Client{}\<close>: every field at its zero value.\<close>

definition default_Client :: Client where
  "default_Client = \<lparr>Conn = None, Config = None, disconnects = 0\<rparr>"

text \<open>
  A call either returns a value or panics (a nil dereference, an index out of range).
\<close>

datatype 'a outcome = Panic | Return 'a

subsection \<open>Formatting the address\<close>

function show_nat :: "nat \<Rightarrow> string" where
  "show_nat k = (if k < 10 then [''0123456789'' ! k]
                 else show_nat (k div 10) @ [''0123456789'' ! (k mod 10)])"
  by pat_completeness auto
termination
  by (relation "measure (\<lambda>k. k)") auto

definition show_int :: "int \<Rightarrow> string" where
  "show_int i = (if i < 0 then ''-'' @ show_nat (nat (- i)) else show_nat (nat i))"

text \<open>\<^verbatim>\<open>fmt.Sprintf("%s:%d", host, port)\<close>\<close>

definition address_of :: "string \<Rightarrow> int \<Rightarrow> string" where
  "address_of host port = host @ '':'' @ show_int port"

subsection \<open>Close and connect\<close>

definition Close :: "'w env \<Rightarrow> Client \<Rightarrow> 'w net \<Rightarrow> Client \<times> 'w net" where
  "Close env c n =
     (case Conn c of
        None \<Rightarrow> (c, n)
      | Some h \<Rightarrow> (c\<lparr>Conn := None\<rparr>, net_close env h n))"

definition connect :: "'w env \<Rightarrow> Client \<Rightarrow> 'w net \<Rightarrow> error option outcome \<times> Client \<times> 'w net" where
  "connect env c n =
     (case Close env c n of (c1, n1) \<Rightarrow>
        (case Config c1 of
           None \<Rightarrow> (Panic, c1, n1)
         | Some cfg \<Rightarrow>
             let address = address_of (Host cfg) (Port cfg) in
             if UseSSL cfg then
               if length (CACertificates cfg) > 0
                  \<and> \<not> AppendCertsFromPEM env (CACertificates cfg)
               then (Return (Some ''Could not append CA certs from PEM''), c1, n1)
               else
                 let tlsConfig =
                   \<lparr>tls_InsecureSkipVerify = InsecureSkipVerify cfg,
                    ServerName = Host cfg,
                    RootCAs = (if length (CACertificates cfg) > 0
                               then Some (CACertificates cfg) else None),
                    Certificates = (if length (ClientCertificates cfg) > 0
                                    then ClientCertificates cfg else [])\<rparr>
                 in (case net_dial_tls env address tlsConfig n1 of
                       (Inl err, n2) \<Rightarrow> (Return (Some err), c1, n2)
                     | (Inr ldapConn, n2) \<Rightarrow> (Return None, c1\<lparr>Conn := Some ldapConn\<rparr>, n2))
             else
               (case net_dial env address n1 of
                  (Inl err, n2) \<Rightarrow> (Return (Some err), c1, n2)
                | (Inr ldapConn, n2) \<Rightarrow> (Return None, c1\<lparr>Conn := Some ldapConn\<rparr>, n2))))"

subsection \<open>Bind\<close>

definition connection_closed :: error where
  "connection_closed = ''LDAP Result Code 200 \"Network Error\": ldap: connection closed''"

definition credentials_not_set :: error where
  "credentials_not_set = ''BindDN or BindPassword was not set on Client config''"

function Bind :: "'w env \<Rightarrow> Client \<Rightarrow> 'w net \<Rightarrow> error option outcome \<times> Client \<times> 'w net" where
  "Bind env c n =
     (case Config c of
        None \<Rightarrow> (Panic, c, n)
      | Some cfg \<Rightarrow>
          if BindDN cfg \<noteq> [] \<and> BindPassword cfg \<noteq> [] then
            (case Conn c of
               None \<Rightarrow> (Panic, c, n)
             | Some h \<Rightarrow>
                 (case net_bind env h (BindDN cfg) (BindPassword cfg) n of
                    (None, n1) \<Rightarrow> (Return None, c\<lparr>disconnects := 0\<rparr>, n1)
                  | (Some err, n1) \<Rightarrow>
                      if err = connection_closed then
                        if disconnects c + 1 <s 2 then
                          (case connect env (c\<lparr>disconnects := disconnects c + 1\<rparr>) n1 of
                             (Panic, c2, n2) \<Rightarrow> (Panic, c2, n2)
                           | (Return (Some err2), c2, n2) \<Rightarrow> (Return (Some err2), c2, n2)
                           | (Return None, c2, n2) \<Rightarrow> Bind env c2 n2)
                        else (Return (Some err), c\<lparr>disconnects := disconnects c + 1\<rparr>, n1)
                      else (Return (Some err), c, n1)))
          else (Return (Some credentials_not_set), c, n))"
  by pat_completeness auto
termination Bind
proof (relation "measure (\<lambda>(env, c, n). unat (1 - disconnects c))", goal_cases)
  case 1
  show ?case by simp
next
  case (2 env c n cfg h r n1 err out cn2 e2 c2 n2)
  have "connect env (c\<lparr>disconnects := disconnects c + 1\<rparr>) n1 = (Return None, c2, n2)"
    using 2 by simp
  then have same: "disconnects c2 = disconnects c + 1"
    by (auto simp: connect_def Close_def Let_def
        split: option.splits if_splits prod.splits sum.splits)
  have "sint (disconnects c + 1) < 2"
    using 2 by (simp add: word_sless_alt)
  then have nz: "1 - disconnects c \<noteq> 0"
    by auto
  have "unat (1 - disconnects c - 1) < unat (1 - disconnects c)"
    using unat_minus_one [OF nz] unat_gt_0 [of "1 - disconnects c"] nz by arith
  moreover have "1 - disconnects c - 1 = 1 - (disconnects c + 1)"
    by simp
  ultimately show ?case
    using same by simp
qed

declare Bind.simps [simp del]

subsection \<open>New\<close>

text \<open>
  \<^verbatim>\<open>New\<close> returns a pointer to a client and an error. On failure the client it was
  building is dropped and a fresh \<^verbatim>\<open>&Client{}\<close> is returned.
\<close>

definition New :: "'w env \<Rightarrow> Config option \<Rightarrow> 'w net \<Rightarrow> (Client \<times> error option) outcome \<times> 'w net" where
  "New env config n =
     (case connect env \<lparr>Conn = None, Config = config, disconnects = 0\<rparr> n of
        (Panic, client, n1) \<Rightarrow> (Panic, n1)
      | (Return (Some err), client, n1) \<Rightarrow> (Return (default_Client, Some err), n1)
      | (Return None, client, n1) \<Rightarrow>
          (case Bind env client n1 of
             (Panic, client2, n2) \<Rightarrow> (Panic, n2)
           | (Return (Some err), client2, n2) \<Rightarrow> (Return (default_Client, Some err), n2)
           | (Return None, client2, n2) \<Rightarrow> (Return (client2, None), n2)))"

subsection \<open>Authenticate\<close>

text \<open>
  Modelled from the spec: \<^verbatim>\<open>Entry.GetAttributeValue\<close> is a method of the go-ldap
  library, which is not among the repository's sources. The spec: "read the first (or
  only) value present on the matched entry into the result mapping; a missing attribute
  yields an empty string value".
\<close>

definition GetAttributeValue :: "Entry \<Rightarrow> string \<Rightarrow> string" where
  "GetAttributeValue e attribute =
     (case find (\<lambda>a. Name a = attribute) (Entry_Attributes e) of
        None \<Rightarrow> []
      | Some a \<Rightarrow> (case Values a of [] \<Rightarrow> [] | v # _ \<Rightarrow> v))"

text \<open>
  The loop of lines 147 to 150: starting from the empty map, one assignment
  \<^verbatim>\<open>user[attr] = ...\<close> per configured attribute, in order.
\<close>

definition user_attributes :: "Entry \<Rightarrow> string list \<Rightarrow> (string \<rightharpoonup> string)" where
  "user_attributes e attrs =
     foldl (\<lambda>user attr. user(attr \<mapsto> GetAttributeValue e attr)) Map.empty attrs"

text \<open>
  The result of \<^verbatim>\<open>Authenticate\<close>: the flag, the attribute map (\<open>None\<close> is the nil
  map) and the error (\<open>None\<close> is nil).
\<close>

type_synonym auth_result = "bool \<times> (string \<rightharpoonup> string) option \<times> error option"

text \<open>Lines 123 to 131: the request for the entry of \<open>username\<close>.\<close>

definition user_SearchRequest :: "'w env \<Rightarrow> Config \<Rightarrow> string \<Rightarrow> SearchRequest" where
  "user_SearchRequest env cfg username =
     (let attributes = Attributes cfg @ [''dn'']
      in NewSearchRequest (Base cfg) ScopeWholeSubtree NeverDerefAliases 0 0 False
           (Sprintf env (UserFilter cfg) username) attributes)"

text \<open>The body of \<^verbatim>\<open>Authenticate\<close>, lines 120 to 156, without the deferred call.\<close>

definition Authenticate_body ::
  "'w env \<Rightarrow> string \<Rightarrow> string \<Rightarrow> Client \<Rightarrow> 'w net \<Rightarrow> auth_result outcome \<times> Client \<times> 'w net" where
  "Authenticate_body env username password c n =
     (case Bind env c n of
        (Panic, c0, n0) \<Rightarrow> (Panic, c0, n0)
      | (Return (Some err), c0, n0) \<Rightarrow> (Return (False, None, Some err), c0, n0)
      | (Return None, c0, n0) \<Rightarrow>
          (case Config c0 of
             None \<Rightarrow> (Panic, c0, n0)
           | Some cfg \<Rightarrow>
               let searchRequest = user_SearchRequest env cfg username
               in (case Conn c0 of
                     None \<Rightarrow> (Panic, c0, n0)
                   | Some h \<Rightarrow>
                       (case net_search env h searchRequest n0 of
                          (Inl err, n1) \<Rightarrow> (Return (False, None, Some err), c0, n1)
                        | (Inr entries, n1) \<Rightarrow>
                            if length entries < 1 then
                              (Return (False, None, Some ''User does not exist''), c0, n1)
                            else if length entries > 1 then
                              (Return (False, None, Some ''Too many entries returned''), c0, n1)
                            else
                              (case entries of
                                 [] \<Rightarrow> (Panic, c0, n1)
                               | entry # _ \<Rightarrow>
                                   let userDN = DN entry;
                                       user = user_attributes entry (Attributes cfg)
                                   in (case net_bind env h userDN password n1 of
                                         (Some err, n2) \<Rightarrow>
                                           (Return (False, Some user, Some err), c0, n2)
                                       | (None, n2) \<Rightarrow>
                                           (Return (True, Some user, None), c0, n2)))))))"

text \<open>
  \<^verbatim>\<open>defer c.Bind()\<close> (line 119): when the body has returned or panicked, \<^verbatim>\<open>Bind\<close>
  runs once more on the client as the body left it. What it returns is dropped; if it
  panics, or the body did, the call panics.
\<close>

definition Authenticate ::
  "'w env \<Rightarrow> string \<Rightarrow> string \<Rightarrow> Client \<Rightarrow> 'w net \<Rightarrow> auth_result outcome \<times> Client \<times> 'w net" where
  "Authenticate env username password c n =
     (case Authenticate_body env username password c n of
        (out, c1, n1) \<Rightarrow>
          (case Bind env c1 n1 of
             (Panic, c2, n2) \<Rightarrow> (Panic, c2, n2)
           | (Return deferred, c2, n2) \<Rightarrow> (out, c2, n2)))"

section \<open>A scripted environment\<close>

text \<open>
  For concrete runs: a world that answers the binds, dials and searches from three
  lists, one answer per call. A bind beyond the script is refused, a dial beyond it
  fails, a search beyond it finds nothing.
\<close>

record script =
  bind_answers :: "error option list"
  dial_answers :: "(error + conn) list"
  search_answers :: "(error + Entry list) list"

fun subst_s :: "string \<Rightarrow> string \<Rightarrow> string" where
  "subst_s [] a = []"
| "subst_s [x] a = [x]"
| "subst_s (x # y # rest) a =
     (if x = CHR ''%'' \<and> y = CHR ''s'' then a @ rest else x # subst_s (y # rest) a)"

definition next_dial :: "script \<Rightarrow> (error + conn) \<times> script" where
  "next_dial w =
     (case dial_answers w of
        [] \<Rightarrow> (Inl ''dial tcp: connection refused'', w)
      | r # rs \<Rightarrow> (r, w\<lparr>dial_answers := rs\<rparr>))"

definition scripted :: "script env" where
  "scripted =
     \<lparr>Dial = (\<lambda>address w. next_dial w),
      DialTLS = (\<lambda>address tlsConfig w. next_dial w),
      AppendCertsFromPEM = (\<lambda>pem. pem \<noteq> [0]),
      Conn_Bind = (\<lambda>h dn pw w.
        case bind_answers w of
          [] \<Rightarrow> (Some ''ldap bind failed'', w)
        | r # rs \<Rightarrow> (r, w\<lparr>bind_answers := rs\<rparr>)),
      Conn_Search = (\<lambda>h req w.
        case search_answers w of
          [] \<Rightarrow> (Inr [], w)
        | r # rs \<Rightarrow> (r, w\<lparr>search_answers := rs\<rparr>)),
      Conn_Close = (\<lambda>h w. w),
      Sprintf = subst_s\<rparr>"

definition start :: "error option list \<Rightarrow> (error + conn) list \<Rightarrow> (error + Entry list) list \<Rightarrow> script net" where
  "start bs ds ss =
     \<lparr>remote = \<lparr>bind_answers = bs, dial_answers = ds, search_answers = ss\<rparr>, trace = []\<rparr>"

text \<open>The same network later on: the answers left, and the log so far.\<close>

definition logged ::
  "error option list \<Rightarrow> (error + conn) list \<Rightarrow> (error + Entry list) list \<Rightarrow> event list
    \<Rightarrow> script net" where
  "logged bs ds ss evs =
     \<lparr>remote = \<lparr>bind_answers = bs, dial_answers = ds, search_answers = ss\<rparr>, trace = evs\<rparr>"

text \<open>The configuration and the entry of the spec's concrete scenario.\<close>

definition example_Config :: Config where
  "example_Config =
     \<lparr>Attributes = [''mail''], Base = ''dc=example,dc=com'', BindDN = ''svc'',
      BindPassword = ''svcpw'', GroupFilter = [], Host = ''ldap.example.com'',
      UserFilter = ''(uid=%s)'', Port = 389, InsecureSkipVerify = False, UseSSL = False,
      ClientCertificates = [], CACertificates = []\<rparr>"

definition alice :: Entry where
  "alice =
     \<lparr>DN = ''uid=alice,dc=example,dc=com'',
      Entry_Attributes = [\<lparr>Name = ''mail'', Values = [''alice@example.com'']\<rparr>]\<rparr>"

definition example_Client :: Client where
  "example_Client = \<lparr>Conn = Some 0, Config = Some example_Config, disconnects = 0\<rparr>"

section \<open>Reading the log\<close>

text \<open>The events a call added to the log, given the network before and after it.\<close>

definition new_events :: "'w net \<Rightarrow> 'w net \<Rightarrow> event list" where
  "new_events n n' = drop (length (trace n)) (trace n')"

text \<open>A bind that the server answered with the connection-closed error of line 92.\<close>

fun closed_failure :: "event \<Rightarrow> bool" where
  "closed_failure (EvBind h dn pw r) = (r = Some connection_closed)"
| "closed_failure (EvDial address) = False"
| "closed_failure (EvDialTLS address tlsConfig) = False"
| "closed_failure (EvSearch h req) = False"
| "closed_failure (EvClose h) = False"

definition closed_failures :: "event list \<Rightarrow> nat" where
  "closed_failures evs = length (filter closed_failure evs)"

text \<open>
  An outage: the server has closed the connection, the client's \<^verbatim>\<open>Bind\<close> is called on
  a fresh client, redials with success and is answered with the same error again.
  \<open>after_outage\<close> is the client and the network as that call leaves them; the script
  holds one more closed-connection answer and one more successful dial.
\<close>

definition outage :: "script net" where
  "outage = start [Some connection_closed, Some connection_closed, Some connection_closed]
     [Inr 1, Inr 2] []"

definition after_outage :: "Client \<times> script net" where
  "after_outage = snd (Bind scripted example_Client outage)"

section \<open>How a call of Bind can run\<close>

lemma connect_result:
  assumes "connect env c n = (r, c2, n2)"
  shows "Config c2 = Config c \<and> disconnects c2 = disconnects c \<and>
         (case r of
            Panic \<Rightarrow> Config c = None
          | Return None \<Rightarrow> (\<exists>h. Conn c2 = Some h)
          | Return (Some e) \<Rightarrow> Conn c2 = None)"
  using assms
  by (auto simp: connect_def Close_def Let_def
      split: option.splits if_splits prod.splits sum.splits)

lemma Bind_cases [consumes 1, case_names no_config no_credentials no_conn bound refused
    closed_final reconnect_panic reconnect_failed retry]:
  assumes "Bind env c n = res"
  obtains
    (no_config) "Config c = None" "res = (Panic, c, n)"
  | (no_credentials) cfg where "Config c = Some cfg" "BindDN cfg = [] \<or> BindPassword cfg = []"
      "res = (Return (Some credentials_not_set), c, n)"
  | (no_conn) cfg where "Config c = Some cfg" "BindDN cfg \<noteq> []" "BindPassword cfg \<noteq> []"
      "Conn c = None" "res = (Panic, c, n)"
  | (bound) cfg h n1 where "Config c = Some cfg" "BindDN cfg \<noteq> []" "BindPassword cfg \<noteq> []"
      "Conn c = Some h" "net_bind env h (BindDN cfg) (BindPassword cfg) n = (None, n1)"
      "res = (Return None, c\<lparr>disconnects := 0\<rparr>, n1)"
  | (refused) cfg h n1 err where "Config c = Some cfg" "BindDN cfg \<noteq> []"
      "BindPassword cfg \<noteq> []" "Conn c = Some h"
      "net_bind env h (BindDN cfg) (BindPassword cfg) n = (Some err, n1)"
      "err \<noteq> connection_closed" "res = (Return (Some err), c, n1)"
  | (closed_final) cfg h n1 where "Config c = Some cfg" "BindDN cfg \<noteq> []"
      "BindPassword cfg \<noteq> []" "Conn c = Some h"
      "net_bind env h (BindDN cfg) (BindPassword cfg) n = (Some connection_closed, n1)"
      "\<not> disconnects c + 1 <s 2"
      "res = (Return (Some connection_closed), c\<lparr>disconnects := disconnects c + 1\<rparr>, n1)"
  | (reconnect_panic) cfg h n1 c2 n2 where "Config c = Some cfg" "BindDN cfg \<noteq> []"
      "BindPassword cfg \<noteq> []" "Conn c = Some h"
      "net_bind env h (BindDN cfg) (BindPassword cfg) n = (Some connection_closed, n1)"
      "disconnects c + 1 <s 2"
      "connect env (c\<lparr>disconnects := disconnects c + 1\<rparr>) n1 = (Panic, c2, n2)"
      "res = (Panic, c2, n2)"
  | (reconnect_failed) cfg h n1 err2 c2 n2 where "Config c = Some cfg" "BindDN cfg \<noteq> []"
      "BindPassword cfg \<noteq> []" "Conn c = Some h"
      "net_bind env h (BindDN cfg) (BindPassword cfg) n = (Some connection_closed, n1)"
      "disconnects c + 1 <s 2"
      "connect env (c\<lparr>disconnects := disconnects c + 1\<rparr>) n1 = (Return (Some err2), c2, n2)"
      "res = (Return (Some err2), c2, n2)"
  | (retry) cfg h n1 c2 n2 where "Config c = Some cfg" "BindDN cfg \<noteq> []"
      "BindPassword cfg \<noteq> []" "Conn c = Some h"
      "net_bind env h (BindDN cfg) (BindPassword cfg) n = (Some connection_closed, n1)"
      "disconnects c + 1 <s 2"
      "connect env (c\<lparr>disconnects := disconnects c + 1\<rparr>) n1 = (Return None, c2, n2)"
      "Bind env c2 n2 = res"
proof (cases "Config c")
  case None
  then show ?thesis
    using assms no_config by (simp add: Bind.simps [of env c n])
next
  case cfg: (Some cfg)
  show ?thesis
  proof (cases "BindDN cfg \<noteq> [] \<and> BindPassword cfg \<noteq> []")
    case False
    then show ?thesis
      using assms cfg no_credentials [of cfg] by (auto simp: Bind.simps [of env c n])
  next
    case creds: True
    show ?thesis
    proof (cases "Conn c")
      case None
      then show ?thesis
        using assms cfg creds no_conn [of cfg] by (simp add: Bind.simps [of env c n])
    next
      case h: (Some h)
      obtain r n1 where nb: "net_bind env h (BindDN cfg) (BindPassword cfg) n = (r, n1)"
        by (cases "net_bind env h (BindDN cfg) (BindPassword cfg) n")
      note unfold = Bind.simps [of env c n]
      show ?thesis
      proof (cases r)
        case None
        then show ?thesis
          using assms cfg creds h nb bound [of cfg h n1] by (simp add: unfold)
      next
        case err: (Some err)
        show ?thesis
        proof (cases "err = connection_closed")
          case False
          then show ?thesis
            using assms cfg creds h nb err refused [of cfg h err n1] by (simp add: unfold)
        next
          case closed: True
          show ?thesis
          proof (cases "disconnects c + 1 <s 2")
            case False
            then show ?thesis
              using assms cfg creds h nb err closed closed_final [of cfg h n1]
              by (simp add: unfold)
          next
            case again: True
            obtain out c2 n2 where
              co: "connect env (c\<lparr>disconnects := disconnects c + 1\<rparr>) n1 = (out, c2, n2)"
              by (cases "connect env (c\<lparr>disconnects := disconnects c + 1\<rparr>) n1")
            have eq: "Bind env c n =
                (case out of Panic \<Rightarrow> (Panic, c2, n2)
                 | Return None \<Rightarrow> Bind env c2 n2
                 | Return (Some err2) \<Rightarrow> (Return (Some err2), c2, n2))"
              by (subst Bind.simps)
                (simp add: cfg creds h nb err closed again co split: outcome.split option.split)
            have d1: "BindDN cfg \<noteq> []" and d2: "BindPassword cfg \<noteq> []"
              using creds by simp_all
            have nb': "net_bind env h (BindDN cfg) (BindPassword cfg) n =
                (Some connection_closed, n1)"
              using nb err closed by simp
            show ?thesis
            proof (cases out)
              case Panic
              have "res = (Panic, c2, n2)"
                using assms eq Panic by simp
              moreover have "connect env (c\<lparr>disconnects := disconnects c + 1\<rparr>) n1 =
                  (Panic, c2, n2)"
                using co Panic by simp
              ultimately show ?thesis
                using reconnect_panic [OF cfg d1 d2 h nb' again] by blast
            next
              case (Return e)
              show ?thesis
              proof (cases e)
                case None
                have "Bind env c2 n2 = res"
                  using assms eq Return None by simp
                moreover have "connect env (c\<lparr>disconnects := disconnects c + 1\<rparr>) n1 =
                    (Return None, c2, n2)"
                  using co Return None by simp
                ultimately show ?thesis
                  using retry [OF cfg d1 d2 h nb' again] by blast
              next
                case (Some err2)
                have "res = (Return (Some err2), c2, n2)"
                  using assms eq Return Some by simp
                moreover have "connect env (c\<lparr>disconnects := disconnects c + 1\<rparr>) n1 =
                    (Return (Some err2), c2, n2)"
                  using co Return Some by simp
                ultimately show ?thesis
                  using reconnect_failed [OF cfg d1 d2 h nb' again] by blast
              qed
            qed
          qed
        qed
      qed
    qed
  qed
qed

lemma Bind_retry_induct [case_names step]:
  assumes "\<And>env c n. (\<And>cfg h n1 c2 n2. Config c = Some cfg \<Longrightarrow> BindDN cfg \<noteq> [] \<Longrightarrow>
      BindPassword cfg \<noteq> [] \<Longrightarrow> Conn c = Some h \<Longrightarrow>
      net_bind env h (BindDN cfg) (BindPassword cfg) n = (Some connection_closed, n1) \<Longrightarrow>
      disconnects c + 1 <s 2 \<Longrightarrow>
      connect env (c\<lparr>disconnects := disconnects c + 1\<rparr>) n1 = (Return None, c2, n2) \<Longrightarrow>
      P env c2 n2) \<Longrightarrow> P env c n"
  shows "P env c n"
proof (induction env c n rule: Bind.induct)
  case (1 env c n)
  show ?case
  proof (rule assms)
    fix cfg h n1 c2 n2
    assume "Config c = Some cfg" "BindDN cfg \<noteq> []" "BindPassword cfg \<noteq> []" "Conn c = Some h"
      "net_bind env h (BindDN cfg) (BindPassword cfg) n = (Some connection_closed, n1)"
      "disconnects c + 1 <s 2"
      "connect env (c\<lparr>disconnects := disconnects c + 1\<rparr>) n1 = (Return None, c2, n2)"
    then show "P env c2 n2"
      using "1.IH" [of cfg h "Some connection_closed" n1 connection_closed "Return None"
          "(c2, n2)" None c2 n2]
      by simp
  qed
qed

lemma Bind_Config:
  "Bind env c n = (r, c', n') \<Longrightarrow> Config c' = Config c"
proof (induction env c n arbitrary: r c' n' rule: Bind_retry_induct)
  case (step env c n)
  from step.prems show ?case
  proof (cases rule: Bind_cases)
    case (retry cfg h n1 c2 n2)
    then show ?thesis using step.IH [OF retry(1-7) retry(8)] connect_result [OF retry(7)] step.prems by simp
  qed (auto dest: connect_result)
qed

lemma Bind_success:
  assumes "Bind env c n = (Return None, c', n')"
  shows "disconnects c' = 0 \<and> (\<exists>h. Conn c' = Some h) \<and>
         (\<exists>cfg. Config c' = Some cfg \<and> BindDN cfg \<noteq> [] \<and> BindPassword cfg \<noteq> [])"
  using assms
proof (induction env c n rule: Bind_retry_induct)
  case (step env c n)
  from step.prems show ?case
  proof (cases rule: Bind_cases)
    case (retry cfg h n1 c2 n2)
    then show ?thesis
      using step.IH [OF retry(1-7) retry(8)] by simp
  qed auto
qed

lemma Bind_returns:
  assumes "Config c = Some cfg" and "Conn c = Some h"
  shows "\<exists>e c' n'. Bind env c n = (Return e, c', n')"
  using assms
proof (induction env c n arbitrary: h rule: Bind_retry_induct)
  case (step env c n)
  obtain res where res: "Bind env c n = res"
    by simp
  then show ?case
  proof (cases rule: Bind_cases)
    case (retry cfg' h' n1 c2 n2)
    from connect_result [OF retry(7)] obtain h2 where "Conn c2 = Some h2" "Config c2 = Some cfg"
      using step.prems by auto
    then show ?thesis
      using step.IH [OF retry(1-7)] retry(8) res by simp
  next
    case (reconnect_panic cfg' h' n1 c2 n2)
    then show ?thesis
      using connect_result [OF reconnect_panic(7)] by simp
  qed (use step.prems res in auto)
qed

lemma other_errors_not_closed:
  "''ldap bind failed'' \<noteq> connection_closed"
  "''dial tcp: connection refused'' \<noteq> connection_closed"
  by (simp_all add: connection_closed_def)

lemmas run_simps = other_errors_not_closed Bind.simps outage_def start_def logged_def example_Client_def example_Config_def
  scripted_def net_bind_def net_search_def connect_def Close_def net_close_def net_dial_def
  net_dial_tls_def next_dial_def address_of_def show_int_def word_sless_alt new_events_def
  closed_failures_def after_outage_def

lemma net_bind_trace:
  "net_bind env h dn pw n = (r, n1) \<Longrightarrow> trace n1 = trace n @ [EvBind h dn pw r]"
  by (auto simp: net_bind_def split: prod.splits)

lemma connect_trace:
  assumes "connect env c n = (r, c2, n2)"
  shows "\<exists>evs. trace n2 = trace n @ evs \<and> closed_failures evs = 0"
  using assms
  by (auto simp: connect_def Close_def Let_def net_close_def net_dial_def net_dial_tls_def
      closed_failures_def split: option.splits if_splits prod.splits sum.splits)

lemma Bind_counter:
  assumes "Bind env c n = (out, c', n')"
  shows "\<exists>evs. trace n' = trace n @ evs \<and>
           (out \<noteq> Return None \<longrightarrow>
              disconnects c' = disconnects c + of_nat (closed_failures evs))"
  using assms
proof (induction env c n rule: Bind_retry_induct)
  case (step env c n)
  from step.prems show ?case
  proof (cases rule: Bind_cases)
    case (retry cfg h n1 c2 n2)
    from step.IH [OF retry(1-7) retry(8)] obtain evs where
      evs: "trace n' = trace n2 @ evs"
        "out \<noteq> Return None \<longrightarrow> disconnects c' = disconnects c2 + of_nat (closed_failures evs)"
      by blast
    from connect_trace [OF retry(7)] obtain cevs where
      cevs: "trace n2 = trace n1 @ cevs" "closed_failures cevs = 0"
      by blast
    have d2: "disconnects c2 = disconnects c + 1"
      using connect_result [OF retry(7)] by simp
    let ?evs = "EvBind h (BindDN cfg) (BindPassword cfg) (Some connection_closed) # cevs @ evs"
    have t: "trace n' = trace n @ ?evs"
      using evs(1) cevs(1) net_bind_trace [OF retry(5)] by simp
    have cf: "closed_failures ?evs = Suc (closed_failures evs)"
      using cevs(2) by (simp add: closed_failures_def)
    have "out \<noteq> Return None \<longrightarrow>
        disconnects c' = disconnects c + of_nat (closed_failures ?evs)"
      using evs(2) d2 by (simp add: cf)
    with t show ?thesis
      by blast
  next
    case (reconnect_failed cfg h n1 err2 c2 n2)
    from connect_trace [OF reconnect_failed(7)] obtain cevs where
      cevs: "trace n2 = trace n1 @ cevs" "closed_failures cevs = 0"
      by blast
    let ?evs = "EvBind h (BindDN cfg) (BindPassword cfg) (Some connection_closed) # cevs"
    have t: "trace n' = trace n @ ?evs"
      using cevs(1) net_bind_trace [OF reconnect_failed(5)] reconnect_failed(8) by simp
    have cf: "closed_failures ?evs = 1"
      using cevs(2) by (simp add: closed_failures_def)
    have "disconnects c' = disconnects c + of_nat (closed_failures ?evs)"
      using connect_result [OF reconnect_failed(7)] reconnect_failed(8) by (simp add: cf)
    with t show ?thesis
      by blast
  next
    case (reconnect_panic cfg h n1 c2 n2)
    then show ?thesis
      using connect_result [OF reconnect_panic(7)] by simp
  next
    case (closed_final cfg h n1)
    then show ?thesis
      using net_bind_trace [OF closed_final(5)] by (simp add: closed_failures_def)
  next
    case (refused cfg h n1 err)
    then show ?thesis
      using net_bind_trace [OF refused(5)] by (simp add: closed_failures_def)
  next
    case (bound cfg h n1)
    then show ?thesis
      using net_bind_trace [OF bound(5)] by simp
  qed (simp_all add: closed_failures_def)
qed

lemma Bind_from_zero:
  assumes "Bind env c n = (out, c', n')" and "disconnects c = 0"
  shows "disconnects c' = 0 \<or> disconnects c' = 1 \<or> disconnects c' = 2"
  using assms(1)
proof (cases rule: Bind_cases)
  case (retry cfg h n1 c2 n2)
  have d2: "disconnects c2 = 1"
    using connect_result [OF retry(7)] assms(2) by simp
  from retry(8) show ?thesis
    by (cases rule: Bind_cases) (use d2 in \<open>auto simp: word_sless_alt\<close>)
next
  case (reconnect_failed cfg h n1 err2 c2 n2)
  then show ?thesis
    using connect_result [OF reconnect_failed(7)] assms(2) by simp
next
  case (reconnect_panic cfg h n1 c2 n2)
  then show ?thesis
    using connect_result [OF reconnect_panic(7)] assms(2) by simp
qed (use assms(2) in \<open>auto simp: word_sless_alt\<close>)

section \<open>How a call of Authenticate can run\<close>

lemmas auth_simps = Authenticate_def Authenticate_body_def user_SearchRequest_def
  NewSearchRequest_def ScopeWholeSubtree_def NeverDerefAliases_def user_attributes_def
  GetAttributeValue_def alice_def

lemma Authenticate_body_after_guard:
  assumes "Bind env c n = (Return None, c0, n0)"
    and "Config c0 = Some cfg" and "Conn c0 = Some h"
    and "net_search env h (user_SearchRequest env cfg u) n0 = (sr, n1)"
  shows "Authenticate_body env u p c n =
     (case sr of
        Inl err \<Rightarrow> (Return (False, None, Some err), c0, n1)
      | Inr entries \<Rightarrow>
          (case entries of
             [] \<Rightarrow> (Return (False, None, Some ''User does not exist''), c0, n1)
           | [entry] \<Rightarrow>
               (case net_bind env h (DN entry) p n1 of
                  (r, n2) \<Rightarrow>
                    (Return (r = None, Some (user_attributes entry (Attributes cfg)), r), c0, n2))
           | _ # _ # _ \<Rightarrow> (Return (False, None, Some ''Too many entries returned''), c0, n1)))"
  using assms
  by (simp add: Authenticate_body_def Let_def
      split: sum.split list.split option.split prod.split)

lemma Authenticate_deferred:
  assumes "Authenticate_body env u p c n = (out, c1, n1)"
    and "Bind env c1 n1 = (d, c2, n2)"
  shows "Authenticate env u p c n = ((case d of Panic \<Rightarrow> Panic | Return e \<Rightarrow> out), c2, n2)"
  using assms by (simp add: Authenticate_def split: outcome.split)

lemma Bind_first_event:
  assumes "Config c = Some cfg" and "BindDN cfg \<noteq> []" and "BindPassword cfg \<noteq> []"
    and "Conn c = Some h"
  shows "\<exists>e c2 n2 r evs. Bind env c n = (Return e, c2, n2) \<and>
           new_events n n2 = EvBind h (BindDN cfg) (BindPassword cfg) r # evs \<and>
           (r = None \<longrightarrow> e = None \<and> evs = [])"
proof -
  from Bind_returns [OF assms(1,4)] obtain e c2 n2 where
    run: "Bind env c n = (Return e, c2, n2)"
    by blast
  obtain r n1 where nb: "net_bind env h (BindDN cfg) (BindPassword cfg) n = (r, n1)"
    by (cases "net_bind env h (BindDN cfg) (BindPassword cfg) n")
  have t1: "trace n1 = trace n @ [EvBind h (BindDN cfg) (BindPassword cfg) r]"
    by (rule net_bind_trace [OF nb])
  have "\<exists>evs. trace n2 = trace n1 @ evs \<and> (r = None \<longrightarrow> e = None \<and> evs = [])"
    using run
  proof (cases rule: Bind_cases)
    case (retry cfg' h' n1' c2' n2')
    from Bind_counter [OF retry(8)] connect_trace [OF retry(7)] show ?thesis
      using retry(1,4,5) assms(1,4) nb by auto
  next
    case (reconnect_failed cfg' h' n1' err2 c2' n2')
    from connect_trace [OF reconnect_failed(7)] show ?thesis
      using reconnect_failed(1,4,5,8) assms(1,4) nb by auto
  qed (use assms nb in auto)
  then obtain evs where "trace n2 = trace n @ EvBind h (BindDN cfg) (BindPassword cfg) r # evs"
    and "r = None \<longrightarrow> e = None \<and> evs = []"
    using t1 by auto
  then have "new_events n n2 = EvBind h (BindDN cfg) (BindPassword cfg) r # evs \<and>
      (r = None \<longrightarrow> e = None \<and> evs = [])"
    by (simp add: new_events_def)
  with run show ?thesis
    by blast
qed

lemma foldl_attributes:
  "foldl (\<lambda>user attr. user(attr \<mapsto> g attr)) m attrs a =
     (if a \<in> set attrs then Some (g a) else m a)"
  by (induction attrs arbitrary: m) auto

lemma user_attributes_lookup:
  "user_attributes e attrs a = (if a \<in> set attrs then Some (GetAttributeValue e a) else None)"
  by (simp add: user_attributes_def foldl_attributes)

lemma Authenticate_body_not_both:
  assumes "Authenticate_body env u p c n = (Return (True, m, e), c1, n1)"
  shows "e = None"
  using assms
  by (auto simp: Authenticate_body_def Let_def
      split: prod.splits outcome.splits option.splits sum.splits list.splits if_splits)

section \<open>Bind without service credentials\<close>

text \<open>
  Claim C8. When the configuration's \<^verbatim>\<open>BindDN\<close> or \<^verbatim>\<open>BindPassword\<close> is empty,
  \<^verbatim>\<open>Bind\<close> returns the configuration error at once: the client is unchanged (so no
  reconnect took place) and so are the outside world and the log of network
  operations (so no bind was sent).
\<close>

theorem Bind_without_credentials:
  assumes "Config c = Some cfg" and "BindDN cfg = [] \<or> BindPassword cfg = []"
  shows "Bind env c n =
    (Return (Some ''BindDN or BindPassword was not set on Client config''), c, n)"
  using assms by (subst Bind.simps) (auto simp: credentials_not_set_def)

theorem Bind_without_credentials_witness:
  "Bind scripted (example_Client\<lparr>Config := Some (example_Config\<lparr>BindPassword := []\<rparr>)\<rparr>)
     (start [None] [Inr 1] []) =
   (Return (Some ''BindDN or BindPassword was not set on Client config''),
    example_Client\<lparr>Config := Some (example_Config\<lparr>BindPassword := []\<rparr>)\<rparr>,
    start [None] [Inr 1] [])
   \<and> trace (start [None] [Inr 1] []) = []"
  using Bind_without_credentials [of "example_Client\<lparr>Config := Some (example_Config\<lparr>BindPassword := []\<rparr>)\<rparr>"
      "example_Config\<lparr>BindPassword := []\<rparr>" scripted "start [None] [Inr 1] []"]
  by (simp add: example_Client_def start_def)

section \<open>The reconnect and the retried bind\<close>

text \<open>
  Claim C1, as amended. Take a call of \<^verbatim>\<open>Bind\<close> on a client with service
  credentials and a connection, whose bind is answered with the connection-closed
  error. If the counter \<^verbatim>\<open>disconnects\<close> is 0 at entry (a fresh client, or any client
  after a bind that succeeded), the client reconnects exactly once: either the reconnect
  fails and its error is returned with no further bind, or it succeeds and the bind is
  sent exactly once more, on the new connection, and whatever it answers (success, the
  same error, another error) is the result, the network being left as that second
  bind left it. If the counter is not 0 at entry, so that the test of line 94 fails,
  the error is returned at once, with no reconnect and no second bind: the counter is
  not reset when a call fails, and a call that follows a failed one does not retry.
\<close>

theorem Bind_reconnects_once:
  assumes "Config c = Some cfg" and "BindDN cfg \<noteq> []" and "BindPassword cfg \<noteq> []"
    and "Conn c = Some h"
    and "net_bind env h (BindDN cfg) (BindPassword cfg) n = (Some connection_closed, n1)"
  shows "(disconnects c = 0 \<longrightarrow>
           (\<exists>out c2 n2. connect env (c\<lparr>disconnects := 1\<rparr>) n1 = (Return out, c2, n2) \<and>
              (case out of
                 Some err \<Rightarrow> Bind env c n = (Return (Some err), c2, n2)
               | None \<Rightarrow>
                   (\<exists>h2 r n3. Conn c2 = Some h2 \<and>
                      net_bind env h2 (BindDN cfg) (BindPassword cfg) n2 = (r, n3) \<and>
                      Bind env c n =
                        (Return r,
                         c2\<lparr>disconnects :=
                           (case r of None \<Rightarrow> 0
                            | Some e \<Rightarrow> if e = connection_closed then 2 else 1)\<rparr>,
                         n3)))))
       \<and> (\<not> disconnects c + 1 <s 2 \<longrightarrow>
            Bind env c n =
              (Return (Some connection_closed), c\<lparr>disconnects := disconnects c + 1\<rparr>, n1))"
proof (intro conjI impI)
  assume "\<not> disconnects c + 1 <s 2"
  then show "Bind env c n =
      (Return (Some connection_closed), c\<lparr>disconnects := disconnects c + 1\<rparr>, n1)"
    using assms by (simp add: Bind.simps [of env c n])
next
  assume zero: "disconnects c = 0"
  obtain out0 c2 n2 where co: "connect env (c\<lparr>disconnects := 1\<rparr>) n1 = (out0, c2, n2)"
    by (cases "connect env (c\<lparr>disconnects := 1\<rparr>) n1")
  note cr = connect_result [OF co]
  have first: "Bind env c n =
      (case out0 of Panic \<Rightarrow> (Panic, c2, n2)
       | Return None \<Rightarrow> Bind env c2 n2
       | Return (Some err2) \<Rightarrow> (Return (Some err2), c2, n2))"
    using assms zero co
    by (simp add: Bind.simps [of env c n] word_sless_alt split: outcome.split option.split)
  from cr assms(1) obtain out where out: "out0 = Return out"
    by (cases out0) auto
  show "\<exists>out c2 n2. connect env (c\<lparr>disconnects := 1\<rparr>) n1 = (Return out, c2, n2) \<and>
      (case out of
         Some err \<Rightarrow> Bind env c n = (Return (Some err), c2, n2)
       | None \<Rightarrow>
           (\<exists>h2 r n3. Conn c2 = Some h2 \<and>
              net_bind env h2 (BindDN cfg) (BindPassword cfg) n2 = (r, n3) \<and>
              Bind env c n =
                (Return r,
                 c2\<lparr>disconnects :=
                   (case r of None \<Rightarrow> 0
                    | Some e \<Rightarrow> if e = connection_closed then 2 else 1)\<rparr>,
                 n3)))"
  proof (cases out)
    case (Some err)
    then show ?thesis
      using co out first by simp
  next
    case None
    from cr out None obtain h2 where h2: "Conn c2 = Some h2"
      by auto
    have cfg2: "Config c2 = Some cfg" and d2: "disconnects c2 = 1"
      using cr assms(1) by simp_all
    obtain r n3 where nb: "net_bind env h2 (BindDN cfg) (BindPassword cfg) n2 = (r, n3)"
      by (cases "net_bind env h2 (BindDN cfg) (BindPassword cfg) n2")
    have same: "c2\<lparr>disconnects := 1\<rparr> = c2"
      using d2 by simp
    have "Bind env c2 n2 =
        (Return r,
         c2\<lparr>disconnects :=
           (case r of None \<Rightarrow> 0 | Some e \<Rightarrow> if e = connection_closed then 2 else 1)\<rparr>,
         n3)"
      using cfg2 h2 d2 nb assms(2,3) same
      by (simp add: Bind.simps [of env c2 n2] word_sless_alt split: option.split)
    then show ?thesis
      using co out None first h2 nb by simp
  qed
qed

text \<open>
  The claim as written fails on the call that follows an outage: the credentials are
  set, the bind is answered with the connection-closed error, a dial would succeed, and
  yet the call sends this one bind and nothing else.
\<close>

theorem Bind_reconnects_once_counterexample:
  "Config (fst after_outage) = Some example_Config
   \<and> BindDN example_Config \<noteq> [] \<and> BindPassword example_Config \<noteq> []
   \<and> fst (Bind scripted (fst after_outage) (snd after_outage)) = Return (Some connection_closed)
   \<and> new_events (snd after_outage) (snd (snd (Bind scripted (fst after_outage) (snd after_outage))))
       = [EvBind 1 ''svc'' ''svcpw'' (Some connection_closed)]
   \<and> dial_answers (remote (snd after_outage)) = [Inr 2]"
  by (simp add: run_simps)

text \<open>
  Both halves on the outage: the first call reconnects once and sends the bind twice,
  the call after it sends one bind and does not reconnect.
\<close>

theorem Bind_reconnects_once_witness:
  "Config example_Client = Some example_Config
   \<and> BindDN example_Config \<noteq> [] \<and> BindPassword example_Config \<noteq> []
   \<and> Conn example_Client = Some 0 \<and> disconnects example_Client = 0
   \<and> fst (net_bind scripted 0 (BindDN example_Config) (BindPassword example_Config) outage)
       = Some connection_closed
   \<and> Bind scripted example_Client outage =
       (Return (Some connection_closed), example_Client\<lparr>Conn := Some 1, disconnects := 2\<rparr>,
        snd after_outage)
   \<and> new_events outage (snd after_outage) =
       [EvBind 0 ''svc'' ''svcpw'' (Some connection_closed), EvClose 0,
        EvDial ''ldap.example.com:389'', EvBind 1 ''svc'' ''svcpw'' (Some connection_closed)]
   \<and> \<not> disconnects (fst after_outage) + 1 <s 2
   \<and> Bind scripted (fst after_outage) (snd after_outage) =
       (Return (Some connection_closed), (fst after_outage)\<lparr>disconnects := 3\<rparr>,
        snd (snd (Bind scripted (fst after_outage) (snd after_outage))))"
proof -
  have a: "Config example_Client = Some example_Config" "BindDN example_Config \<noteq> []"
    "BindPassword example_Config \<noteq> []" "Conn example_Client = Some 0"
    by (simp_all add: example_Client_def example_Config_def)
  have b: "net_bind scripted 0 (BindDN example_Config) (BindPassword example_Config) outage =
      (Some connection_closed,
       snd (net_bind scripted 0 (BindDN example_Config) (BindPassword example_Config) outage))"
    by (simp add: run_simps)
  have c: "Config (fst after_outage) = Some example_Config" "Conn (fst after_outage) = Some 1"
    by (simp_all add: run_simps)
  have d: "net_bind scripted 1 (BindDN example_Config) (BindPassword example_Config)
      (snd after_outage) =
      (Some connection_closed,
       snd (snd (Bind scripted (fst after_outage) (snd after_outage))))"
    by (simp add: run_simps)
  show ?thesis
    using Bind_reconnects_once [OF a b] Bind_reconnects_once [OF c(1) a(2,3) c(2) d]
    by (simp add: run_simps)
qed

section \<open>The counter of disconnects\<close>

text \<open>
  Claim C2, as amended. After a call of \<^verbatim>\<open>Bind\<close> that succeeded the counter is 0.
  After any other call it is the counter at entry plus the number of binds of that
  call that were answered with the connection-closed error (in 64-bit arithmetic), so
  it is incremented on such answers only. A call entered with the counter at 0 leaves
  it at 2 at most. Over several calls it is not bounded by 2: a failed call does not
  reset it.
\<close>

theorem Bind_disconnects:
  assumes "Bind env c n = (out, c', n')"
  shows "(out = Return None \<longrightarrow> disconnects c' = 0)
       \<and> (out \<noteq> Return None \<longrightarrow>
            disconnects c' = disconnects c + of_nat (closed_failures (new_events n n')))
       \<and> (disconnects c = 0 \<longrightarrow> disconnects c' \<le> 2)"
proof (intro conjI impI)
  assume "out = Return None"
  then show "disconnects c' = 0"
    using Bind_success assms by blast
next
  assume "out \<noteq> Return None"
  then show "disconnects c' = disconnects c + of_nat (closed_failures (new_events n n'))"
    using Bind_counter [OF assms] by (auto simp: new_events_def)
next
  assume "disconnects c = 0"
  from Bind_from_zero [OF assms this] show "disconnects c' \<le> 2"
    by auto
qed

text \<open>The counter is 3 after the call that follows the outage.\<close>

theorem Bind_disconnects_counterexample:
  "disconnects (fst (snd (Bind scripted (fst after_outage) (snd after_outage)))) = 3
   \<and> \<not> disconnects (fst (snd (Bind scripted (fst after_outage) (snd after_outage)))) \<le> 2"
  by (simp add: run_simps)

text \<open>The first call of the outage: two closed-connection answers, counter 2.\<close>

theorem Bind_disconnects_witness:
  "Bind scripted example_Client outage =
     (Return (Some connection_closed), fst after_outage, snd after_outage)
   \<and> Return (Some connection_closed) \<noteq> (Return None :: error option outcome)
   \<and> disconnects example_Client = 0
   \<and> closed_failures (new_events outage (snd after_outage)) = 2
   \<and> disconnects (fst after_outage) =
       disconnects example_Client + of_nat (closed_failures (new_events outage (snd after_outage)))
   \<and> disconnects (fst after_outage) \<le> 2"
proof -
  have run: "Bind scripted example_Client outage =
     (Return (Some connection_closed), fst after_outage, snd after_outage)"
    by (simp add: run_simps)
  have "closed_failures (new_events outage (snd after_outage)) = 2"
    by (simp add: run_simps)
  moreover have "disconnects example_Client = 0"
    by (simp add: example_Client_def)
  ultimately show ?thesis
    using Bind_disconnects [OF run] run by simp
qed

section \<open>The entry guard of Authenticate\<close>

text \<open>
  Claim C3. \<^verbatim>\<open>Authenticate\<close> binds as the service first and, when that bind fails,
  is to return \<open>(false, nil, the error)\<close>. The run below is the case where it does
  not: the server has closed the connection and cannot be reached again. The entry
  \<^verbatim>\<open>Bind\<close> gets the connection-closed error, \<^verbatim>\<open>connect\<close> closes the old connection
  (setting \<^verbatim>\<open>Conn\<close> to nil) and fails to dial, so \<^verbatim>\<open>Bind\<close> returns the dial error and
  the body returns \<open>(false, nil, that error)\<close>. The deferred \<^verbatim>\<open>Bind\<close> of line 119 then
  calls \<^verbatim>\<open>c.Conn.Bind\<close> on the nil connection: the call panics instead of returning.
\<close>

theorem Authenticate_panics_after_failed_reconnect:
  "Bind scripted example_Client (start [Some connection_closed] [] []) =
     (Return (Some ''dial tcp: connection refused''),
      example_Client\<lparr>Conn := None, disconnects := 1\<rparr>,
      logged [] [] []
        [EvBind 0 ''svc'' ''svcpw'' (Some connection_closed), EvClose 0,
         EvDial ''ldap.example.com:389''])
   \<and> fst (Authenticate_body scripted ''alice'' ''hunter2'' example_Client
         (start [Some connection_closed] [] [])) =
       Return (False, None, Some ''dial tcp: connection refused'')
   \<and> fst (Authenticate scripted ''alice'' ''hunter2'' example_Client
         (start [Some connection_closed] [] [])) = Panic"
  by (simp add: run_simps auth_simps)

section \<open>The deferred bind\<close>

text \<open>
  Claim C4. However the body of \<^verbatim>\<open>Authenticate\<close> ends, \<^verbatim>\<open>Bind\<close> runs exactly once
  more after it: the client and the network at the end of \<^verbatim>\<open>Authenticate\<close> are those
  that one call of \<^verbatim>\<open>Bind\<close> leaves, started where the body stopped. When the entry
  guard succeeded (the exit paths of the claim: success, search failure, no match,
  several matches, refused password), the body returns a result, that call of \<^verbatim>\<open>Bind\<close>
  returns too, its first network operation is a bind with the service credentials on
  the client's connection, and \<^verbatim>\<open>Authenticate\<close> returns the body's result with the
  state that call left. If the server accepts that bind, it is the only network
  operation of the call and the call succeeds: the connection is bound as the service
  again.
\<close>

theorem Authenticate_rebinds_once:
  assumes "Authenticate_body env u p c n = (out, c1, n1)"
  shows "snd (Authenticate env u p c n) = snd (Bind env c1 n1)
       \<and> (fst (Bind env c n) = Return None \<longrightarrow>
            (\<exists>res cfg h e c2 n2 r evs.
                out = Return res \<and> Config c1 = Some cfg \<and> Conn c1 = Some h \<and>
                Bind env c1 n1 = (Return e, c2, n2) \<and>
                Authenticate env u p c n = (Return res, c2, n2) \<and>
                new_events n1 n2 = EvBind h (BindDN cfg) (BindPassword cfg) r # evs \<and>
                (r = None \<longrightarrow> e = None \<and> evs = [])))"
proof (intro conjI impI)
  obtain d c2 n2 where d: "Bind env c1 n1 = (d, c2, n2)"
    by (cases "Bind env c1 n1")
  from Authenticate_deferred [OF assms d] show
    "snd (Authenticate env u p c n) = snd (Bind env c1 n1)"
    using d by simp
next
  assume "fst (Bind env c n) = Return None"
  then obtain c0 n0 where guard: "Bind env c n = (Return None, c0, n0)"
    by (cases "Bind env c n") auto
  from Bind_success [OF guard] obtain cfg h where
    cfg: "Config c0 = Some cfg" "BindDN cfg \<noteq> []" "BindPassword cfg \<noteq> []"
    and h: "Conn c0 = Some h"
    by blast
  obtain sr m1 where search: "net_search env h (user_SearchRequest env cfg u) n0 = (sr, m1)"
    by (cases "net_search env h (user_SearchRequest env cfg u) n0")
  from Authenticate_body_after_guard [OF guard cfg(1) h search, of p] assms
  obtain res where res: "out = Return res" and c1: "c1 = c0"
    by (auto split: sum.splits list.splits prod.splits)
  from Bind_first_event [OF cfg h, of env n1] obtain e c2 n2 r evs where
    deferred: "Bind env c0 n1 = (Return e, c2, n2)"
      "new_events n1 n2 = EvBind h (BindDN cfg) (BindPassword cfg) r # evs"
      "r = None \<longrightarrow> e = None \<and> evs = []"
    by blast
  from Authenticate_deferred [OF assms] deferred(1) c1 res
  have "Authenticate env u p c n = (Return res, c2, n2)"
    by simp
  then show "\<exists>res cfg h e c2 n2 r evs.
      out = Return res \<and> Config c1 = Some cfg \<and> Conn c1 = Some h \<and>
      Bind env c1 n1 = (Return e, c2, n2) \<and>
      Authenticate env u p c n = (Return res, c2, n2) \<and>
      new_events n1 n2 = EvBind h (BindDN cfg) (BindPassword cfg) r # evs \<and>
      (r = None \<longrightarrow> e = None \<and> evs = [])"
    using res c1 cfg(1) h deferred by blast
qed

text \<open>
  The spec's scenario, good password: service bind, search, bind as alice, and the
  service bind once more.
\<close>

theorem Authenticate_rebinds_once_witness:
  "fst (Bind scripted example_Client (start [None, None, None] [] [Inr [alice]])) = Return None
   \<and> Authenticate_body scripted ''alice'' ''hunter2'' example_Client
        (start [None, None, None] [] [Inr [alice]]) =
       (Return (True, Some (user_attributes alice [''mail'']), None), example_Client,
        logged [None] [] []
          [EvBind 0 ''svc'' ''svcpw'' None,
           EvSearch 0 (user_SearchRequest scripted example_Config ''alice''),
           EvBind 0 ''uid=alice,dc=example,dc=com'' ''hunter2'' None])
   \<and> Authenticate scripted ''alice'' ''hunter2'' example_Client
        (start [None, None, None] [] [Inr [alice]]) =
       (Return (True, Some (user_attributes alice [''mail'']), None), example_Client,
        logged [] [] []
          [EvBind 0 ''svc'' ''svcpw'' None,
           EvSearch 0 (user_SearchRequest scripted example_Config ''alice''),
           EvBind 0 ''uid=alice,dc=example,dc=com'' ''hunter2'' None,
           EvBind 0 ''svc'' ''svcpw'' None])
   \<and> snd (Authenticate scripted ''alice'' ''hunter2'' example_Client
        (start [None, None, None] [] [Inr [alice]])) =
       snd (Bind scripted example_Client
          (logged [None] [] []
            [EvBind 0 ''svc'' ''svcpw'' None,
             EvSearch 0 (user_SearchRequest scripted example_Config ''alice''),
             EvBind 0 ''uid=alice,dc=example,dc=com'' ''hunter2'' None]))"
proof -
  have body: "Authenticate_body scripted ''alice'' ''hunter2'' example_Client
        (start [None, None, None] [] [Inr [alice]]) =
       (Return (True, Some (user_attributes alice [''mail'']), None), example_Client,
        logged [None] [] []
          [EvBind 0 ''svc'' ''svcpw'' None,
           EvSearch 0 (user_SearchRequest scripted example_Config ''alice''),
           EvBind 0 ''uid=alice,dc=example,dc=com'' ''hunter2'' None])"
    by (simp add: run_simps auth_simps)
  show ?thesis
    using Authenticate_rebinds_once [OF body] body
    by (simp add: run_simps auth_simps)
qed

section \<open>How many entries the search returned\<close>

text \<open>
  Claim C5. After a successful entry guard and a successful search: with no entry
  \<^verbatim>\<open>Authenticate\<close> returns \<open>(false, nil, "User does not exist")\<close>, with more than one
  \<open>(false, nil, "Too many entries returned")\<close>, and in both cases nothing happens
  between the search and the deferred \<^verbatim>\<open>Bind\<close> (no attribute map, no validation
  bind). With exactly one entry the attributes are read and the bind as that entry is
  sent, and the result holds the attribute map.
\<close>

theorem Authenticate_result_count:
  assumes "Bind env c n = (Return None, c0, n0)"
    and "Config c0 = Some cfg" and "Conn c0 = Some h"
    and "net_search env h (user_SearchRequest env cfg u) n0 = (Inr entries, n1)"
  shows "(entries = [] \<longrightarrow>
            fst (Authenticate env u p c n) = Return (False, None, Some ''User does not exist'')
            \<and> snd (Authenticate env u p c n) = snd (Bind env c0 n1))
       \<and> (length entries > 1 \<longrightarrow>
            fst (Authenticate env u p c n) =
              Return (False, None, Some ''Too many entries returned'')
            \<and> snd (Authenticate env u p c n) = snd (Bind env c0 n1))
       \<and> (\<forall>entry. entries = [entry] \<longrightarrow>
            (\<exists>r n2. net_bind env h (DN entry) p n1 = (r, n2)
               \<and> fst (Authenticate env u p c n) =
                   Return (r = None, Some (user_attributes entry (Attributes cfg)), r)
               \<and> snd (Authenticate env u p c n) = snd (Bind env c0 n2)))"
proof -
  note body = Authenticate_body_after_guard [OF assms, of p]
  from Bind_success [OF assms(1)] assms(2) have
    creds: "BindDN cfg \<noteq> []" "BindPassword cfg \<noteq> []"
    by auto
  have deferred: "\<exists>e c2 n2. Bind env c0 m = (Return e, c2, n2)" for m
    using Bind_returns [OF assms(2,3)] by blast
  show ?thesis
  proof (intro conjI impI allI)
    assume "entries = []"
    then have b: "Authenticate_body env u p c n =
        (Return (False, None, Some ''User does not exist''), c0, n1)"
      using body by simp
    from deferred [of n1] obtain e c2 n2 where d: "Bind env c0 n1 = (Return e, c2, n2)"
      by blast
    from Authenticate_deferred [OF b d] d show
      "fst (Authenticate env u p c n) = Return (False, None, Some ''User does not exist'')"
      "snd (Authenticate env u p c n) = snd (Bind env c0 n1)"
      by simp_all
  next
    assume "length entries > 1"
    then have b: "Authenticate_body env u p c n =
        (Return (False, None, Some ''Too many entries returned''), c0, n1)"
      using body by (auto split: list.splits)
    from deferred [of n1] obtain e c2 n2 where d: "Bind env c0 n1 = (Return e, c2, n2)"
      by blast
    from Authenticate_deferred [OF b d] d show
      "fst (Authenticate env u p c n) = Return (False, None, Some ''Too many entries returned'')"
      "snd (Authenticate env u p c n) = snd (Bind env c0 n1)"
      by simp_all
  next
    fix entry
    assume one: "entries = [entry]"
    obtain r n2 where nb: "net_bind env h (DN entry) p n1 = (r, n2)"
      by (cases "net_bind env h (DN entry) p n1")
    have b: "Authenticate_body env u p c n =
        (Return (r = None, Some (user_attributes entry (Attributes cfg)), r), c0, n2)"
      using body one nb by simp
    from deferred [of n2] obtain e c2 m2 where d: "Bind env c0 n2 = (Return e, c2, m2)"
      by blast
    from Authenticate_deferred [OF b d] d nb show
      "\<exists>r n2. net_bind env h (DN entry) p n1 = (r, n2)
         \<and> fst (Authenticate env u p c n) =
             Return (r = None, Some (user_attributes entry (Attributes cfg)), r)
         \<and> snd (Authenticate env u p c n) = snd (Bind env c0 n2)"
      by simp
  qed
qed

text \<open>No entry, two entries, and one entry with a refused password.\<close>

theorem Authenticate_result_count_witness:
  "Bind scripted example_Client (start [None, None] [] [Inr []]) =
     (Return None, example_Client, logged [None] [] [Inr []] [EvBind 0 ''svc'' ''svcpw'' None])
   \<and> net_search scripted 0 (user_SearchRequest scripted example_Config ''bob'')
        (logged [None] [] [Inr []] [EvBind 0 ''svc'' ''svcpw'' None]) =
       (Inr [], logged [None] [] []
          [EvBind 0 ''svc'' ''svcpw'' None,
           EvSearch 0 (user_SearchRequest scripted example_Config ''bob'')])
   \<and> Authenticate scripted ''bob'' ''x'' example_Client (start [None, None] [] [Inr []]) =
       (Return (False, None, Some ''User does not exist''), example_Client,
        logged [] [] []
          [EvBind 0 ''svc'' ''svcpw'' None,
           EvSearch 0 (user_SearchRequest scripted example_Config ''bob''),
           EvBind 0 ''svc'' ''svcpw'' None])
   \<and> Authenticate scripted ''bob'' ''x'' example_Client
        (start [None, None] [] [Inr [alice, alice]]) =
       (Return (False, None, Some ''Too many entries returned''), example_Client,
        logged [] [] []
          [EvBind 0 ''svc'' ''svcpw'' None,
           EvSearch 0 (user_SearchRequest scripted example_Config ''bob''),
           EvBind 0 ''svc'' ''svcpw'' None])
   \<and> Authenticate scripted ''alice'' ''wrong'' example_Client
        (start [None, Some ''ldap bind failed'', None] [] [Inr [alice]]) =
       (Return (False, Some (user_attributes alice [''mail'']), Some ''ldap bind failed''),
        example_Client,
        logged [] [] []
          [EvBind 0 ''svc'' ''svcpw'' None,
           EvSearch 0 (user_SearchRequest scripted example_Config ''alice''),
           EvBind 0 ''uid=alice,dc=example,dc=com'' ''wrong'' (Some ''ldap bind failed''),
           EvBind 0 ''svc'' ''svcpw'' None])"
proof -
  have cfg: "Config example_Client = Some example_Config" and h: "Conn example_Client = Some 0"
    by (simp_all add: example_Client_def)
  have g0: "Bind scripted example_Client (start [None, None] [] [Inr []]) =
     (Return None, example_Client, logged [None] [] [Inr []] [EvBind 0 ''svc'' ''svcpw'' None])"
    by (simp add: run_simps)
  have s0: "net_search scripted 0 (user_SearchRequest scripted example_Config ''bob'')
        (logged [None] [] [Inr []] [EvBind 0 ''svc'' ''svcpw'' None]) =
       (Inr [], logged [None] [] []
          [EvBind 0 ''svc'' ''svcpw'' None,
           EvSearch 0 (user_SearchRequest scripted example_Config ''bob'')])"
    by (simp add: run_simps auth_simps)
  have g2: "Bind scripted example_Client (start [None, None] [] [Inr [alice, alice]]) =
     (Return None, example_Client,
      logged [None] [] [Inr [alice, alice]] [EvBind 0 ''svc'' ''svcpw'' None])"
    by (simp add: run_simps)
  have s2: "net_search scripted 0 (user_SearchRequest scripted example_Config ''bob'')
        (logged [None] [] [Inr [alice, alice]] [EvBind 0 ''svc'' ''svcpw'' None]) =
       (Inr [alice, alice], logged [None] [] []
          [EvBind 0 ''svc'' ''svcpw'' None,
           EvSearch 0 (user_SearchRequest scripted example_Config ''bob'')])"
    by (simp add: run_simps auth_simps)
  have g1: "Bind scripted example_Client
        (start [None, Some ''ldap bind failed'', None] [] [Inr [alice]]) =
     (Return None, example_Client,
      logged [Some ''ldap bind failed'', None] [] [Inr [alice]]
        [EvBind 0 ''svc'' ''svcpw'' None])"
    by (simp add: run_simps)
  have s1: "net_search scripted 0 (user_SearchRequest scripted example_Config ''alice'')
        (logged [Some ''ldap bind failed'', None] [] [Inr [alice]]
          [EvBind 0 ''svc'' ''svcpw'' None]) =
       (Inr [alice], logged [Some ''ldap bind failed'', None] [] []
          [EvBind 0 ''svc'' ''svcpw'' None,
           EvSearch 0 (user_SearchRequest scripted example_Config ''alice'')])"
    by (simp add: run_simps auth_simps)
  show ?thesis
    using Authenticate_result_count [OF g0 cfg h s0, of "''x''"]
      Authenticate_result_count [OF g2 cfg h s2, of "''x''"]
      Authenticate_result_count [OF g1 cfg h s1, of "''wrong''"]
    by (simp add: run_simps auth_simps)
qed

section \<open>The validation bind\<close>

text \<open>
  Claim C6. With exactly one entry found, one bind is sent as that entry's DN with the
  password given. If it succeeds \<^verbatim>\<open>Authenticate\<close> returns \<open>(true, attributes, nil)\<close>;
  if it fails, \<open>(false, attributes, the bind's error)\<close>: the attribute map is returned
  either way. And no call of \<^verbatim>\<open>Authenticate\<close> at all returns \<open>true\<close> with an error.
\<close>

theorem Authenticate_validation_bind:
  "(\<forall>c0 n0 cfg h entry n1 r n2.
       Bind env c n = (Return None, c0, n0) \<and> Config c0 = Some cfg \<and> Conn c0 = Some h \<and>
       net_search env h (user_SearchRequest env cfg u) n0 = (Inr [entry], n1) \<and>
       net_bind env h (DN entry) p n1 = (r, n2) \<longrightarrow>
       new_events n1 n2 = [EvBind h (DN entry) p r] \<and>
       (case r of
          None \<Rightarrow> fst (Authenticate env u p c n) =
            Return (True, Some (user_attributes entry (Attributes cfg)), None)
        | Some err \<Rightarrow> fst (Authenticate env u p c n) =
            Return (False, Some (user_attributes entry (Attributes cfg)), Some err)))
   \<and> (\<forall>m e. fst (Authenticate env u p c n) = Return (True, m, e) \<longrightarrow> e = None)"
proof (intro conjI allI impI)
  fix m e
  assume ret: "fst (Authenticate env u p c n) = Return (True, m, e)"
  obtain out c1 n1 where b: "Authenticate_body env u p c n = (out, c1, n1)"
    by (cases "Authenticate_body env u p c n")
  obtain d c2 n2 where d: "Bind env c1 n1 = (d, c2, n2)"
    by (cases "Bind env c1 n1")
  from Authenticate_deferred [OF b d] ret have "out = Return (True, m, e)"
    by (cases d) auto
  with b show "e = None"
    using Authenticate_body_not_both by blast
next
  fix c0 n0 cfg h entry n1 r n2
  assume a: "Bind env c n = (Return None, c0, n0) \<and> Config c0 = Some cfg \<and> Conn c0 = Some h \<and>
       net_search env h (user_SearchRequest env cfg u) n0 = (Inr [entry], n1) \<and>
       net_bind env h (DN entry) p n1 = (r, n2)"
  then have b: "Authenticate_body env u p c n =
      (Return (r = None, Some (user_attributes entry (Attributes cfg)), r), c0, n2)"
    using Authenticate_body_after_guard [where env = env and c = c and n = n and ?c0.0 = c0
        and ?n0.0 = n0 and cfg = cfg and h = h and u = u and sr = "Inr [entry]" and ?n1.0 = n1
        and p = p]
    by simp
  from a obtain e c2 m2 where d: "Bind env c0 n2 = (Return e, c2, m2)"
    using Bind_returns [where c = c0 and cfg = cfg and h = h and env = env and n = n2]
    by blast
  from Authenticate_deferred [OF b d] show
    "case r of
       None \<Rightarrow> fst (Authenticate env u p c n) =
         Return (True, Some (user_attributes entry (Attributes cfg)), None)
     | Some err \<Rightarrow> fst (Authenticate env u p c n) =
         Return (False, Some (user_attributes entry (Attributes cfg)), Some err)"
    by (simp split: option.split)
  from a show "new_events n1 n2 = [EvBind h (DN entry) p r]"
    using net_bind_trace [where env = env and h = h and dn = "DN entry" and pw = p
        and n = n1 and r = r and ?n1.0 = n2]
    by (simp add: new_events_def)
qed

text \<open>The spec's scenario with the good password and with a wrong one.\<close>

theorem Authenticate_validation_bind_witness:
  "Bind scripted example_Client (start [None, None, None] [] [Inr [alice]]) =
     (Return None, example_Client,
      logged [None, None] [] [Inr [alice]] [EvBind 0 ''svc'' ''svcpw'' None])
   \<and> net_search scripted 0 (user_SearchRequest scripted example_Config ''alice'')
        (logged [None, None] [] [Inr [alice]] [EvBind 0 ''svc'' ''svcpw'' None]) =
       (Inr [alice], logged [None, None] [] []
          [EvBind 0 ''svc'' ''svcpw'' None,
           EvSearch 0 (user_SearchRequest scripted example_Config ''alice'')])
   \<and> fst (net_bind scripted 0 (DN alice) ''hunter2''
        (logged [None, None] [] []
          [EvBind 0 ''svc'' ''svcpw'' None,
           EvSearch 0 (user_SearchRequest scripted example_Config ''alice'')])) = None
   \<and> fst (Authenticate scripted ''alice'' ''hunter2'' example_Client
        (start [None, None, None] [] [Inr [alice]])) =
       Return (True, Some (user_attributes alice (Attributes example_Config)), None)
   \<and> fst (Authenticate scripted ''alice'' ''wrong'' example_Client
        (start [None, Some ''ldap bind failed'', None] [] [Inr [alice]])) =
       Return (False, Some (user_attributes alice (Attributes example_Config)),
         Some ''ldap bind failed'')
   \<and> user_attributes alice (Attributes example_Config) ''mail'' = Some ''alice@example.com''"
proof -
  have ok: "Bind scripted example_Client (start [None, None, None] [] [Inr [alice]]) =
       (Return None, example_Client,
        logged [None, None] [] [Inr [alice]] [EvBind 0 ''svc'' ''svcpw'' None])
     \<and> Config example_Client = Some example_Config \<and> Conn example_Client = Some 0
     \<and> net_search scripted 0 (user_SearchRequest scripted example_Config ''alice'')
          (logged [None, None] [] [Inr [alice]] [EvBind 0 ''svc'' ''svcpw'' None]) =
         (Inr [alice], logged [None, None] [] []
            [EvBind 0 ''svc'' ''svcpw'' None,
             EvSearch 0 (user_SearchRequest scripted example_Config ''alice'')])
     \<and> net_bind scripted 0 (DN alice) ''hunter2''
          (logged [None, None] [] []
            [EvBind 0 ''svc'' ''svcpw'' None,
             EvSearch 0 (user_SearchRequest scripted example_Config ''alice'')]) =
         (None, logged [None] [] []
            [EvBind 0 ''svc'' ''svcpw'' None,
             EvSearch 0 (user_SearchRequest scripted example_Config ''alice''),
             EvBind 0 (DN alice) ''hunter2'' None])"
    by (simp add: run_simps auth_simps)
  have bad: "Bind scripted example_Client
          (start [None, Some ''ldap bind failed'', None] [] [Inr [alice]]) =
       (Return None, example_Client,
        logged [Some ''ldap bind failed'', None] [] [Inr [alice]]
          [EvBind 0 ''svc'' ''svcpw'' None])
     \<and> Config example_Client = Some example_Config \<and> Conn example_Client = Some 0
     \<and> net_search scripted 0 (user_SearchRequest scripted example_Config ''alice'')
          (logged [Some ''ldap bind failed'', None] [] [Inr [alice]]
            [EvBind 0 ''svc'' ''svcpw'' None]) =
         (Inr [alice], logged [Some ''ldap bind failed'', None] [] []
            [EvBind 0 ''svc'' ''svcpw'' None,
             EvSearch 0 (user_SearchRequest scripted example_Config ''alice'')])
     \<and> net_bind scripted 0 (DN alice) ''wrong''
          (logged [Some ''ldap bind failed'', None] [] []
            [EvBind 0 ''svc'' ''svcpw'' None,
             EvSearch 0 (user_SearchRequest scripted example_Config ''alice'')]) =
         (Some ''ldap bind failed'', logged [None] [] []
            [EvBind 0 ''svc'' ''svcpw'' None,
             EvSearch 0 (user_SearchRequest scripted example_Config ''alice''),
             EvBind 0 (DN alice) ''wrong'' (Some ''ldap bind failed'')])"
    by (simp add: run_simps auth_simps)
  have "user_attributes alice (Attributes example_Config) ''mail'' = Some ''alice@example.com''"
    by (simp add: run_simps auth_simps)
  then show ?thesis
    using Authenticate_validation_bind [THEN conjunct1, rule_format, OF ok]
      Authenticate_validation_bind [THEN conjunct1, rule_format, OF bad] ok bad
    by simp
qed

section \<open>The attribute map\<close>

text \<open>
  Claim C7. With exactly one entry found, the map returned has exactly the configured
  attribute names as its keys, and maps each to the first value of that attribute on
  the entry, or to the empty string when the entry has no such attribute (or no value
  for it). The loop is the source's; \<open>GetAttributeValue\<close> is modelled from the spec.
\<close>

theorem Authenticate_attributes:
  assumes "Bind env c n = (Return None, c0, n0)"
    and "Config c0 = Some cfg" and "Conn c0 = Some h"
    and "net_search env h (user_SearchRequest env cfg u) n0 = (Inr [entry], n1)"
  shows "\<exists>a m e. fst (Authenticate env u p c n) = Return (a, Some m, e)
           \<and> dom m = set (Attributes cfg)
           \<and> (\<forall>name \<in> set (Attributes cfg).
                m name = Some
                  (case find (\<lambda>at. Name at = name) (Entry_Attributes entry) of
                     None \<Rightarrow> []
                   | Some at \<Rightarrow> (case Values at of [] \<Rightarrow> [] | v # _ \<Rightarrow> v)))"
proof -
  obtain r n2 where nb: "net_bind env h (DN entry) p n1 = (r, n2)"
    by (cases "net_bind env h (DN entry) p n1")
  have b: "Authenticate_body env u p c n =
      (Return (r = None, Some (user_attributes entry (Attributes cfg)), r), c0, n2)"
    using Authenticate_body_after_guard [OF assms, of p] nb by simp
  from Bind_returns [OF assms(2,3)] obtain e c2 m2 where
    d: "Bind env c0 n2 = (Return e, c2, m2)"
    by blast
  let ?m = "user_attributes entry (Attributes cfg)"
  have "fst (Authenticate env u p c n) = Return (r = None, Some ?m, r)"
    using Authenticate_deferred [OF b d] by simp
  moreover have "dom ?m = set (Attributes cfg)"
    by (auto simp: user_attributes_lookup dom_def)
  moreover have "\<forall>name \<in> set (Attributes cfg).
      ?m name = Some
        (case find (\<lambda>at. Name at = name) (Entry_Attributes entry) of
           None \<Rightarrow> []
         | Some at \<Rightarrow> (case Values at of [] \<Rightarrow> [] | v # _ \<Rightarrow> v))"
    by (simp add: user_attributes_lookup GetAttributeValue_def)
  ultimately show ?thesis
    by blast
qed

text \<open>Two configured attributes, of which alice's entry has the first only.\<close>

theorem Authenticate_attributes_witness:
  "\<exists>a m e.
     fst (Authenticate scripted ''alice'' ''hunter2''
       (example_Client\<lparr>Config := Some (example_Config\<lparr>Attributes := [''mail'', ''phone'']\<rparr>)\<rparr>)
       (start [None, None, None] [] [Inr [alice]])) = Return (a, Some m, e)
     \<and> dom m = {''mail'', ''phone''}
     \<and> m ''mail'' = Some ''alice@example.com''
     \<and> m ''phone'' = Some []"
proof -
  let ?cfg = "example_Config\<lparr>Attributes := [''mail'', ''phone'']\<rparr>"
  let ?c = "example_Client\<lparr>Config := Some ?cfg\<rparr>"
  have cfg: "Config ?c = Some ?cfg" and h: "Conn ?c = Some 0"
    by (simp_all add: example_Client_def)
  have g: "Bind scripted ?c (start [None, None, None] [] [Inr [alice]]) =
     (Return None, ?c, logged [None, None] [] [Inr [alice]] [EvBind 0 ''svc'' ''svcpw'' None])"
    by (simp add: run_simps)
  have s: "net_search scripted 0 (user_SearchRequest scripted ?cfg ''alice'')
        (logged [None, None] [] [Inr [alice]] [EvBind 0 ''svc'' ''svcpw'' None]) =
       (Inr [alice], logged [None, None] [] []
          [EvBind 0 ''svc'' ''svcpw'' None,
           EvSearch 0 (user_SearchRequest scripted ?cfg ''alice'')])"
    by (simp add: run_simps auth_simps)
  from Authenticate_attributes [OF g cfg h s, of "''hunter2''"] obtain a m e where
    r: "fst (Authenticate scripted ''alice'' ''hunter2'' ?c
          (start [None, None, None] [] [Inr [alice]])) = Return (a, Some m, e)"
      "dom m = set (Attributes ?cfg)"
      "\<forall>name \<in> set (Attributes ?cfg).
         m name = Some
           (case find (\<lambda>at. Name at = name) (Entry_Attributes alice) of
              None \<Rightarrow> []
            | Some at \<Rightarrow> (case Values at of [] \<Rightarrow> [] | v # _ \<Rightarrow> v))"
    by blast
  have "dom m = {''mail'', ''phone''}"
    using r(2) by (simp add: example_Config_def)
  moreover have "m ''mail'' = Some ''alice@example.com''" and "m ''phone'' = Some []"
    using r(3) by (simp_all add: example_Config_def alice_def)
  ultimately show ?thesis
    using r(1) by blast
qed

section \<open>The client that New returns on failure\<close>

text \<open>
  Claim C9, as amended. When \<^verbatim>\<open>New\<close> returns an error (the connect failed, or the
  first bind did), the client it returns is \<^verbatim>\<open>&Client{}\<close>: no connection, no
  configuration, counter 0. \<^verbatim>\<open>Close\<close> on it does nothing. \<^verbatim>\<open>Bind\<close> and
  \<^verbatim>\<open>Authenticate\<close> on it read \<^verbatim>\<open>c.Config.BindDN\<close> through the nil configuration and
  panic, leaving everything as it was.
\<close>

theorem New_failure:
  assumes "New env config n = (Return (client, Some err), n')"
  shows "client = default_Client
       \<and> Close env client n' = (client, n')
       \<and> Bind env client n' = (Panic, client, n')
       \<and> Authenticate env u p client n' = (Panic, client, n')"
proof -
  have client: "client = default_Client"
    using assms
    by (auto simp: New_def split: prod.splits outcome.splits option.splits)
  have bind: "Bind env default_Client m = (Panic, default_Client, m)" for m
    by (subst Bind.simps) (simp add: default_Client_def)
  have "Close env default_Client n' = (default_Client, n')"
    by (simp add: Close_def default_Client_def)
  moreover have "Authenticate env u p default_Client n' = (Panic, default_Client, n')"
    by (simp add: Authenticate_def Authenticate_body_def bind)
  ultimately show ?thesis
    using client bind by simp
qed

text \<open>
  The claim as written fails where the dial fails: the client returned is the default
  one, and both \<^verbatim>\<open>Bind\<close> and \<^verbatim>\<open>Authenticate\<close> panic on it.
\<close>

theorem New_failure_counterexample:
  "fst (New scripted (Some example_Config) (start [] [] [])) =
     Return (default_Client, Some ''dial tcp: connection refused'')
   \<and> fst (Bind scripted default_Client (snd (New scripted (Some example_Config) (start [] [] []))))
       = Panic
   \<and> fst (Authenticate scripted ''alice'' ''hunter2'' default_Client
        (snd (New scripted (Some example_Config) (start [] [] [])))) = Panic"
  by (simp add: New_def default_Client_def run_simps auth_simps)

text \<open>A failed dial and a refused first bind.\<close>

theorem New_failure_witness:
  "New scripted (Some example_Config) (start [] [] []) =
     (Return (default_Client, Some ''dial tcp: connection refused''),
      logged [] [] [] [EvDial ''ldap.example.com:389''])
   \<and> New scripted (Some example_Config) (start [Some ''ldap bind failed''] [Inr 0] []) =
     (Return (default_Client, Some ''ldap bind failed''),
      logged [] [] []
        [EvDial ''ldap.example.com:389'', EvBind 0 ''svc'' ''svcpw'' (Some ''ldap bind failed'')])
   \<and> Close scripted default_Client (logged [] [] [] [EvDial ''ldap.example.com:389'']) =
       (default_Client, logged [] [] [] [EvDial ''ldap.example.com:389''])
   \<and> Bind scripted default_Client (logged [] [] [] [EvDial ''ldap.example.com:389'']) =
       (Panic, default_Client, logged [] [] [] [EvDial ''ldap.example.com:389''])
   \<and> Authenticate scripted ''alice'' ''hunter2'' default_Client
        (logged [] [] [] [EvDial ''ldap.example.com:389'']) =
       (Panic, default_Client, logged [] [] [] [EvDial ''ldap.example.com:389''])"
proof -
  have dial: "New scripted (Some example_Config) (start [] [] []) =
     (Return (default_Client, Some ''dial tcp: connection refused''),
      logged [] [] [] [EvDial ''ldap.example.com:389''])"
    by (simp add: New_def run_simps)
  have bind: "New scripted (Some example_Config) (start [Some ''ldap bind failed''] [Inr 0] []) =
     (Return (default_Client, Some ''ldap bind failed''),
      logged [] [] []
        [EvDial ''ldap.example.com:389'', EvBind 0 ''svc'' ''svcpw'' (Some ''ldap bind failed'')])"
    by (simp add: New_def run_simps)
  show ?thesis
    using New_failure [OF dial, of "''alice''" "''hunter2''"] New_failure [OF bind] dial bind
    by simp
qed

section \<open>The error of the deferred bind\<close>

text \<open>
  Claim C10. Whatever the deferred \<^verbatim>\<open>Bind\<close> returns, nil or an error, the result of
  \<^verbatim>\<open>Authenticate\<close> is the result the body determined: the error of the deferred bind
  is dropped.
\<close>

theorem Authenticate_drops_deferred_error:
  assumes "Authenticate_body env u p c n = (Return res, c1, n1)"
    and "Bind env c1 n1 = (Return e, c2, n2)"
  shows "Authenticate env u p c n = (Return res, c2, n2)"
  using assms by (simp add: Authenticate_def)

text \<open>
  A login that succeeds while the service bind after it is refused: the result is
  still \<open>(true, attributes, nil)\<close>.
\<close>

theorem Authenticate_drops_deferred_error_witness:
  "Authenticate_body scripted ''alice'' ''hunter2'' example_Client
      (start [None, None, Some ''ldap bind failed''] [] [Inr [alice]]) =
     (Return (True, Some (user_attributes alice [''mail'']), None), example_Client,
      logged [Some ''ldap bind failed''] [] []
        [EvBind 0 ''svc'' ''svcpw'' None,
         EvSearch 0 (user_SearchRequest scripted example_Config ''alice''),
         EvBind 0 ''uid=alice,dc=example,dc=com'' ''hunter2'' None])
   \<and> fst (Bind scripted example_Client
        (logged [Some ''ldap bind failed''] [] []
          [EvBind 0 ''svc'' ''svcpw'' None,
           EvSearch 0 (user_SearchRequest scripted example_Config ''alice''),
           EvBind 0 ''uid=alice,dc=example,dc=com'' ''hunter2'' None])) =
       Return (Some ''ldap bind failed'')
   \<and> fst (Authenticate scripted ''alice'' ''hunter2'' example_Client
        (start [None, None, Some ''ldap bind failed''] [] [Inr [alice]])) =
       Return (True, Some (user_attributes alice [''mail'']), None)"
proof -
  have body: "Authenticate_body scripted ''alice'' ''hunter2'' example_Client
      (start [None, None, Some ''ldap bind failed''] [] [Inr [alice]]) =
     (Return (True, Some (user_attributes alice [''mail'']), None), example_Client,
      logged [Some ''ldap bind failed''] [] []
        [EvBind 0 ''svc'' ''svcpw'' None,
         EvSearch 0 (user_SearchRequest scripted example_Config ''alice''),
         EvBind 0 ''uid=alice,dc=example,dc=com'' ''hunter2'' None])"
    by (simp add: run_simps auth_simps)
  have deferred: "Bind scripted example_Client
        (logged [Some ''ldap bind failed''] [] []
          [EvBind 0 ''svc'' ''svcpw'' None,
           EvSearch 0 (user_SearchRequest scripted example_Config ''alice''),
           EvBind 0 ''uid=alice,dc=example,dc=com'' ''hunter2'' None]) =
      (Return (Some ''ldap bind failed''), example_Client,
       logged [] [] []
          [EvBind 0 ''svc'' ''svcpw'' None,
           EvSearch 0 (user_SearchRequest scripted example_Config ''alice''),
           EvBind 0 ''uid=alice,dc=example,dc=com'' ''hunter2'' None,
           EvBind 0 ''svc'' ''svcpw'' (Some ''ldap bind failed'')])"
    by (simp add: run_simps auth_simps)
  show ?thesis
    using Authenticate_drops_deferred_error [OF body deferred] body deferred
    by simp
qed

end
